theory Spec2Isabelle
  imports Main "HOL-Library.Sublist"
begin

section \<open>JavaScript values\<close>

text \<open>
  The filter compiler of \<^verbatim>\<open>src/class.db_query.js\<close> dispatches on the runtime kind
  of the values it is handed, so the model works on a datatype of JavaScript values.
  \<^item> Finite numbers are represented by integers; \<open>NaN\<close> and the two infinities are
    separate, because \<^verbatim>\<open>isNumeric\<close> and truthiness tell them apart.
  \<^item> Strings are lists of 8-bit characters; case mapping and trimming are the ASCII ones.
  \<^item> Arrays are dense lists (no holes in the input); a slot the code creates by
    writing past the end reads as \<open>undefined\<close>, as a hole does.
  \<^item> A \<^verbatim>\<open>Date\<close> is given by what its \<^verbatim>\<open>toString()\<close> returns and what its
    \<^verbatim>\<open>toISOString()\<close> returns (\<open>None\<close> for an invalid date, where it throws).
  \<^item> \<open>JClause text values\<close> is an instance of \<^verbatim>\<open>$.SqlClause\<close>.
  \<^item> \<open>JObject\<close> is any other plain object.
\<close>

datatype jsval =
    JUndefined
  | JNull
  | JBool bool
  | JNum int
  | JNaN
  | JInf bool
  | JStr string
  | JArr "jsval list"
  | JDate string "string option"
  | JClause string "jsval list"
  | JObject

text \<open>
  Every \<^verbatim>\<open>throw\<close> statement of the modelled functions is a constructor, named after
  the failure it reports; \<open>TypeError\<close> and \<open>RangeError\<close> are the exceptions the
  JavaScript runtime raises itself outside a \<^verbatim>\<open>throw\<close> statement (calling a method a
  value does not have, reading a property of \<open>null\<close>, \<^verbatim>\<open>toISOString\<close> of an
  invalid date). The two \<^verbatim>\<open>throw\<close> statements for an unknown logic operator build
  their message with \<^verbatim>\<open>this.SQL_OPERATORS_LOGIC.join(...)\<close>, on an object that has no
  such method: the exception that leaves such a statement is the runtime's complaint
  about the message. The model names it by the statement, \<open>UnknownConnectiveError\<close>
  and \<open>UnsupportedLogicOperatorError\<close>.
\<close>

datatype error =
    TypeError
  | RangeError
  | InvalidClauseError                \<comment> \<open>\<^verbatim>\<open>SqlClause accepts only strings\<close>\<close>
  | FilterNotArrayError               \<comment> \<open>\<^verbatim>\<open>missing or wrong parameter search\<close>\<close>
  | UnknownConnectiveError            \<comment> \<open>\<^verbatim>\<open>unknown search.operator\<close>\<close>
  | MissingEntryError                 \<comment> \<open>\<^verbatim>\<open>missing search.filter[t]\<close>\<close>
  | EntryNotArrayError                \<comment> \<open>\<^verbatim>\<open>search.filter[t] isn't an array\<close>\<close>
  | MissingFieldError                 \<comment> \<open>\<^verbatim>\<open>search.filter[t][0] fieldname ... doesn't exists\<close>\<close>
  | UnsupportedLogicOperatorError     \<comment> \<open>\<^verbatim>\<open>search.filter[t][3] unsupported logic operator\<close>\<close>
  | UnsupportedFieldTypeError         \<comment> \<open>\<^verbatim>\<open>search.filter[t][0] unsupported field type\<close>\<close>
  | InvalidColumnError                \<comment> \<open>\<^verbatim>\<open>invalid or empty column name\<close>\<close>
  | MissingOperatorError              \<comment> \<open>\<^verbatim>\<open>missing or empty operator\<close>\<close>
  | OperatorTypeError                 \<comment> \<open>\<^verbatim>\<open>wrong operator type\<close>\<close>
  | UnknownOperatorError              \<comment> \<open>\<^verbatim>\<open>unknown operator\<close>\<close>
  | MissingValueError                 \<comment> \<open>\<^verbatim>\<open>missing or empty value\<close>\<close>
  | OperatorValueMismatchError        \<comment> \<open>\<^verbatim>\<open>unsupported array for skalar sql operator\<close>\<close>
  | InvalidArityError                 \<comment> \<open>\<^verbatim>\<open>unsupported array length for BETWEEN operator\<close>\<close>
  | UnsupportedValueTypeError         \<comment> \<open>\<^verbatim>\<open>unsupported value\<close>\<close>
  | UnknownColumnError                \<comment> \<open>\<^verbatim>\<open>unknown column in columns[t]\<close>\<close>
  | UnacceptedColumnTypeError         \<comment> \<open>\<^verbatim>\<open>unaccepted column type\<close>\<close>

subsection \<open>Strings\<close>

definition lower_letters :: string where
  "lower_letters = ''abcdefghijklmnopqrstuvwxyz''"

definition upper_letters :: string where
  "upper_letters = ''ABCDEFGHIJKLMNOPQRSTUVWXYZ''"

definition upper_char :: "char \<Rightarrow> char" where
  "upper_char c = (case map_of (zip lower_letters upper_letters) c of Some u \<Rightarrow> u | None \<Rightarrow> c)"

definition lower_char :: "char \<Rightarrow> char" where
  "lower_char c = (case map_of (zip upper_letters lower_letters) c of Some l \<Rightarrow> l | None \<Rightarrow> c)"

definition toUpperCase :: "string \<Rightarrow> string" where
  "toUpperCase s = map upper_char s"

definition toLowerCase :: "string \<Rightarrow> string" where
  "toLowerCase s = map lower_char s"

definition is_space :: "char \<Rightarrow> bool" where
  \<comment> \<open>the ASCII members of the white space that \<^verbatim>\<open>trim\<close> and \<^verbatim>\<open>\s\<close> accept\<close>
  "is_space c = (c \<in> set [CHR 0x09, CHR 0x0A, CHR 0x0B, CHR 0x0C, CHR 0x0D, CHR 0x20])"

definition trim :: "string \<Rightarrow> string" where
  "trim s = rev (dropWhile is_space (rev (dropWhile is_space s)))"

fun join_strings :: "string \<Rightarrow> string list \<Rightarrow> string" where
  "join_strings sep [] = []"
| "join_strings sep [x] = x"
| "join_strings sep (x # y # ys) = x @ sep @ join_strings sep (y # ys)"

text \<open>
  \<^verbatim>\<open>value.split(/\s*,\s*/)\<close>: a separator is a comma with the white space around it.
  At each position the pattern either matches (the white space run from here is
  followed by a comma) and closes the current piece, or the character joins the piece.
\<close>

function split_comma :: "string \<Rightarrow> string \<Rightarrow> string list" where
  "split_comma cur [] = [cur]"
| "split_comma cur (c # cs) =
     (case dropWhile is_space (c # cs) of
        d # after \<Rightarrow>
          if d = CHR '','' then cur # split_comma [] (dropWhile is_space after)
          else split_comma (cur @ [c]) cs
      | [] \<Rightarrow> split_comma (cur @ [c]) cs)"
  by pat_completeness auto
termination
proof (relation "measure (\<lambda>(cur, s). length s)")
  show "wf (measure (\<lambda>(cur, s). length s))" by simp
next
  fix cur :: string and c :: char and cs d after
  assume h: "dropWhile is_space (c # cs) = d # after"
  have "length (dropWhile is_space after) \<le> length after"
    by (rule length_dropWhile_le)
  moreover have "length (d # after) \<le> length (c # cs)"
    using length_dropWhile_le [of is_space "c # cs"] h by simp
  ultimately show "(([], dropWhile is_space after), (cur, c # cs)) \<in> measure (\<lambda>(cur, s). length s)"
    by simp
qed simp_all

definition digit_char :: "nat \<Rightarrow> char" where
  "digit_char d = ''0123456789'' ! (d mod 10)"

fun show_nat :: "nat \<Rightarrow> string" where
  "show_nat n = (if n < 10 then [digit_char n] else show_nat (n div 10) @ [digit_char (n mod 10)])"

declare show_nat.simps [simp del]

definition show_int :: "int \<Rightarrow> string" where
  "show_int i = (if i < 0 then CHR ''-'' # show_nat (nat (- i)) else show_nat (nat i))"

subsection \<open>Coercions\<close>

text \<open>\<^verbatim>\<open>String(v)\<close>, as string concatenation and \<^verbatim>\<open>join\<close> apply it; \<^verbatim>\<open>join\<close>
  renders \<open>undefined\<close> and \<open>null\<close> elements as the empty string.\<close>

fun toStr :: "jsval \<Rightarrow> string" where
  "toStr JUndefined = ''undefined''"
| "toStr JNull = ''null''"
| "toStr (JBool b) = (if b then ''true'' else ''false'')"
| "toStr (JNum n) = show_int n"
| "toStr JNaN = ''NaN''"
| "toStr (JInf pos) = (if pos then ''Infinity'' else ''-Infinity'')"
| "toStr (JStr s) = s"
| "toStr (JArr xs) =
     join_strings '',''
       (map (\<lambda>x. case x of JUndefined \<Rightarrow> [] | JNull \<Rightarrow> [] | _ \<Rightarrow> toStr x) xs)"
| "toStr (JDate shown isoString) = shown"
| "toStr (JClause sqlClause sqlValues) = sqlClause"
| "toStr JObject = ''[object Object]''"

definition join_item :: "jsval \<Rightarrow> string" where
  "join_item x = (case x of JUndefined \<Rightarrow> [] | JNull \<Rightarrow> [] | _ \<Rightarrow> toStr x)"

definition join :: "string \<Rightarrow> jsval list \<Rightarrow> string" where
  "join sep xs = join_strings sep (map join_item xs)"

fun truthy :: "jsval \<Rightarrow> bool" where
  "truthy JUndefined = False"
| "truthy JNull = False"
| "truthy (JBool b) = b"
| "truthy (JNum n) = (n \<noteq> 0)"
| "truthy JNaN = False"
| "truthy (JStr s) = (s \<noteq> [])"
| "truthy _ = True"

definition isString :: "jsval \<Rightarrow> bool" where
  "isString v = (case v of JStr s \<Rightarrow> True | _ \<Rightarrow> False)"

definition isClause :: "jsval \<Rightarrow> bool" where
  \<comment> \<open>\<^verbatim>\<open>v instanceof $.SqlClause\<close>\<close>
  "isClause v = (case v of JClause t vs \<Rightarrow> True | _ \<Rightarrow> False)"

text \<open>Array reads and writes by index, as JavaScript does them: a read past the end is
  \<open>undefined\<close>, a write past the end extends the array, \<^verbatim>\<open>length = n\<close> cuts or
  extends it.\<close>

definition at :: "jsval list \<Rightarrow> nat \<Rightarrow> jsval" where
  "at xs i = (if i < length xs then xs ! i else JUndefined)"

definition put :: "jsval list \<Rightarrow> nat \<Rightarrow> jsval \<Rightarrow> jsval list" where
  "put xs i v =
     (if i < length xs then xs[i := v] else xs @ replicate (i - length xs) JUndefined @ [v])"

definition items :: "jsval \<Rightarrow> jsval list" where
  \<comment> \<open>the elements of a value known to be an array\<close>
  "items v = (case v of JArr xs \<Rightarrow> xs | _ \<Rightarrow> [])"

definition set_length :: "jsval list \<Rightarrow> nat \<Rightarrow> jsval list" where
  "set_length xs n = take n xs @ replicate (n - length xs) JUndefined"

subsection \<open>Framework helpers and collaborators\<close>

text \<open>Modelled from the spec: the framework helper \<^verbatim>\<open>$.typeOf\<close> is not part of
  \<^verbatim>\<open>src/\<close>. It is the runtime type inspection that the spec's design notes refer to
  (the value "kind": string, number, boolean, null, date, array); the code compares its
  result with \<^verbatim>\<open>"Array"\<close>, \<^verbatim>\<open>"String"\<close>, \<^verbatim>\<open>"Boolean"\<close>, \<^verbatim>\<open>"null"\<close> and
  \<^verbatim>\<open>"Date"\<close>.\<close>

fun typeOf :: "jsval \<Rightarrow> string" where
  "typeOf JUndefined = ''undefined''"
| "typeOf JNull = ''null''"
| "typeOf (JBool b) = ''Boolean''"
| "typeOf (JNum n) = ''Number''"
| "typeOf JNaN = ''Number''"
| "typeOf (JInf pos) = ''Number''"
| "typeOf (JStr s) = ''String''"
| "typeOf (JArr xs) = ''Array''"
| "typeOf (JDate shown isoString) = ''Date''"
| "typeOf (JClause sqlClause sqlValues) = ''Object''"
| "typeOf JObject = ''Object''"

text \<open>Modelled from the spec: the framework helper \<^verbatim>\<open>$.isArray\<close> is not part of
  \<^verbatim>\<open>src/\<close>; a value is a sequence exactly when it is an array.\<close>

definition isArray :: "jsval \<Rightarrow> bool" where
  "isArray v = (case v of JArr xs \<Rightarrow> True | _ \<Rightarrow> False)"

text \<open>
  What the class takes from outside, as parameters of the model:
  \<^item> the storage adapter \<^verbatim>\<open>$.db\<close> with \<^verbatim>\<open>columnExists\<close>,
    \<^verbatim>\<open>getColumnPlaceholder\<close> and \<^verbatim>\<open>getColumns\<close>;
  \<^item> \<open>numericString s\<close>: whether \<^verbatim>\<open>isNumeric\<close> accepts the string \<open>s\<close>, that is
    whether \<^verbatim>\<open>parseFloat(s)\<close> is a number and \<^verbatim>\<open>Number(s)\<close> is finite (the grammar of
    numeric literals and the floating-point range are not modelled);
  \<^item> \<open>nullIsObject\<close>: what the framework helper \<^verbatim>\<open>$.isObject\<close>, which is not part of
    \<^verbatim>\<open>src/\<close>, answers for \<open>null\<close> (\<^verbatim>\<open>typeof null\<close> is \<^verbatim>\<open>"object"\<close>).
\<close>

record env =
  db_columnExists :: "string \<Rightarrow> jsval \<Rightarrow> bool"
  db_getColumnPlaceholder :: "string \<Rightarrow> jsval \<Rightarrow> string"
  db_getColumns :: "string \<Rightarrow> string list"
  numericString :: "string \<Rightarrow> bool"
  nullIsObject :: bool

definition isObject :: "env \<Rightarrow> jsval \<Rightarrow> bool" where
  "isObject E v =
     (case v of
        JNull \<Rightarrow> nullIsObject E
      | JArr xs \<Rightarrow> True
      | JDate shown isoString \<Rightarrow> True
      | JClause sqlClause sqlValues \<Rightarrow> True
      | JObject \<Rightarrow> True
      | _ \<Rightarrow> False)"

text \<open>\<^verbatim>\<open>isNumeric(test)\<close> is \<^verbatim>\<open>!isNaN(parseFloat(test)) && isFinite(test)\<close>. Both
  coercions go through the string form of an array or a clause; the string form of a
  boolean, of \<open>null\<close>, of \<open>undefined\<close>, of a plain object and of a date (which starts
  with the name of a weekday) is no numeric literal.\<close>

definition isNumeric :: "env \<Rightarrow> jsval \<Rightarrow> bool" where
  "isNumeric E v =
     (case v of
        JNum n \<Rightarrow> True
      | JStr s \<Rightarrow> numericString E s
      | JArr xs \<Rightarrow> numericString E (toStr (JArr xs))
      | JClause sqlClause sqlValues \<Rightarrow> numericString E sqlClause
      | _ \<Rightarrow> False)"

subsection \<open>The operator catalog\<close>

text \<open>\<^verbatim>\<open>flipToObject\<close> turns an array into an object whose keys are the array's values
  and whose values are the indices, which \<^verbatim>\<open>for (t in array)\<close> yields as strings.\<close>

definition flipToObject :: "string list \<Rightarrow> (string \<times> jsval) list" where
  "flipToObject array = zip array (map (\<lambda>t. JStr (show_nat t)) [0..<length array])"

definition lookup :: "(string \<times> jsval) list \<Rightarrow> string \<Rightarrow> jsval" where
  \<comment> \<open>\<^verbatim>\<open>obj[key]\<close>; the keys asked for are upper-case, so no inherited property answers\<close>
  "lookup obj k = (case map_of obj k of Some v \<Rightarrow> v | None \<Rightarrow> JUndefined)"

definition hasOwnProperty :: "(string \<times> jsval) list \<Rightarrow> string \<Rightarrow> bool" where
  "hasOwnProperty obj k = (map_of obj k \<noteq> None)"

definition SQL_OPERATORS :: "(string \<times> jsval) list" where
  "SQL_OPERATORS = flipToObject
     [''<'', ''>'', ''='', ''>='', ''<='', ''<>'', ''!='',
      ''BETWEEN'', ''IN'', ''NOT IN'', ''LIKE'', ''NOT LIKE'',
      ''REGEXP'', ''RLIKE'', ''NOT REGEXP'',
      ''ISNULL'', ''NOT ISNULL'',
      ''EXISTS'', ''NOT EXISTS'', ''ALL'', ''ANY'']"

definition SQL_OPERATORS_ARRAY :: "(string \<times> jsval) list" where
  "SQL_OPERATORS_ARRAY = flipToObject [''BETWEEN'', ''NOT BETWEEN'', ''IN'', ''NOT IN'']"

definition SQL_OPERATORS_LOGIC :: "(string \<times> jsval) list" where
  "SQL_OPERATORS_LOGIC = flipToObject [''AND'', ''OR'', ''XOR'', ''NOT'']"


section \<open>The classes\<close>

subsection \<open>\<^verbatim>\<open>$.SqlClause\<close>\<close>

text \<open>The constructor: \<^verbatim>\<open>this.set(sqlClause || "")\<close>, which accepts only a string, then
  \<^verbatim>\<open>this.values(sqlValues || [])\<close>, which stores an array and ignores anything else.\<close>

definition newSqlClause :: "jsval \<Rightarrow> jsval \<Rightarrow> error + jsval" where
  "newSqlClause sqlClause sqlValues =
     (case (if truthy sqlClause then sqlClause else JStr []) of
        JStr s \<Rightarrow> Inr (JClause s (case sqlValues of JArr newValues \<Rightarrow> newValues | _ \<Rightarrow> []))
      | _ \<Rightarrow> Inl InvalidClauseError)"

subsection \<open>\<^verbatim>\<open>$.DbQuery\<close>: state and small helpers\<close>

text \<open>The fields of a \<^verbatim>\<open>DbQuery\<close> object that the build methods read and write:
  \<^verbatim>\<open>_table\<close>, \<^verbatim>\<open>_sql\<close> and \<^verbatim>\<open>_sqlValues\<close>. The field
  \<^verbatim>\<open>_callbackFilterElement\<close> is \<open>undefined\<close> from the constructor on and no method
  assigns it, so the callback branch of the filter loop is never taken.\<close>

record dbquery =
  q_table :: string
  q_sql :: string
  q_sqlValues :: "jsval list"

text \<open>A search object, with \<open>JUndefined\<close> for a property that is absent. Its limit is
  a number or an array of numbers, each an integer that \<^verbatim>\<open>String\<close> writes in plain
  digits; a limit given as a string would need the grammar of numeric literals and is
  left out of the model. The build methods also write to the search object they are
  given (\<^verbatim>\<open>search.columns = null\<close>, the directions of \<^verbatim>\<open>search.order\<close>, the
  entries of \<^verbatim>\<open>search.filter\<close>); of these writes the model follows those to the
  filter.\<close>

datatype limit = NoLimit | LimitNumber int | LimitArray "int list"

record search =
  s_filter :: jsval
  s_operator :: jsval
  s_columns :: jsval
  s_order :: jsval
  s_limit :: limit

definition getLogicOperator :: "jsval \<Rightarrow> string \<Rightarrow> error + string" where
  "getLogicOperator op1 defaultOp =
     (let defaultOp = (if defaultOp \<noteq> [] then defaultOp else ''AND'') in
      if \<not> truthy op1 then Inr (toUpperCase defaultOp)
      else case op1 of
             JStr s \<Rightarrow>
               if truthy (lookup SQL_OPERATORS_LOGIC (toUpperCase s)) then Inr (toUpperCase s)
               else Inr (toUpperCase defaultOp)
           | _ \<Rightarrow> Inl TypeError)"

definition prepareColumnName :: "jsval \<Rightarrow> error + jsval" where
  "prepareColumnName column =
     (if \<not> truthy column then Inl InvalidColumnError
      else case column of
             JStr s \<Rightarrow> Inr (JStr (toLowerCase (trim s)))
           | _ \<Rightarrow> Inl InvalidColumnError)"

definition getColumnPlaceholder :: "env \<Rightarrow> string \<Rightarrow> jsval \<Rightarrow> string" where
  "getColumnPlaceholder E table column =
     (if db_columnExists E table column then db_getColumnPlaceholder E table column else ''?'')"

subsection \<open>Encoding values\<close>

text \<open>The functions that push onto \<^verbatim>\<open>this._sqlValues\<close> take the list and return it
  with their result, also when they throw: what was pushed before an exception stays.\<close>

definition quote :: string where
  "quote = [CHR 0x27]"

definition pushValue :: "env \<Rightarrow> jsval \<Rightarrow> jsval list \<Rightarrow> (error + bool) \<times> jsval list" where
  "pushValue E v sqlValues =
     (let valueType = typeOf v in
      if isString v \<or> isNumeric E v then (Inr True, sqlValues @ [v])
      else if valueType = ''Boolean'' then
        (Inr True, sqlValues @ [JNum (if v = JBool True then 1 else 0)])
      else if valueType = ''null'' then (Inr True, sqlValues @ [JStr ''NULL''])
      else if valueType = ''Date'' then
        (case v of
           JDate shown (Some isoString) \<Rightarrow> (Inr True, sqlValues @ [JStr isoString])
         | _ \<Rightarrow> (Inl RangeError, sqlValues))
      else if valueType = ''Array'' then
        (case v of
           JArr xs \<Rightarrow>
             (Inr True, sqlValues @ [JStr (quote @ join (quote @ '', '' @ quote) xs @ quote)])
         | _ \<Rightarrow> (Inr False, sqlValues))
      else (Inr False, sqlValues))"

text \<open>The loop \<^verbatim>\<open>for (var tt in value)\<close> of the array operators other than
  \<^verbatim>\<open>BETWEEN\<close>; the result of \<^verbatim>\<open>_pushValue\<close> is not looked at.\<close>

fun pushEach ::
  "env \<Rightarrow> string \<Rightarrow> jsval list \<Rightarrow> nat \<Rightarrow> string \<Rightarrow> jsval list \<Rightarrow> (error + string) \<times> jsval list"
where
  "pushEach E placeholder [] tt tmp sqlValues = (Inr tmp, sqlValues)"
| "pushEach E placeholder (x # xs) tt tmp sqlValues =
     (let tmp = tmp @ (if tt \<noteq> 0 then '', '' else []) @ placeholder in
      case pushValue E x sqlValues of
        (Inl e, sqlValues) \<Rightarrow> (Inl e, sqlValues)
      | (Inr known, sqlValues) \<Rightarrow> pushEach E placeholder xs (Suc tt) tmp sqlValues)"

fun contains :: "string \<Rightarrow> string \<Rightarrow> bool" where
  \<comment> \<open>\<^verbatim>\<open>s.indexOf(p) > -1\<close>\<close>
  "contains p [] = (p = [])"
| "contains p (c # cs) = (prefix p (c # cs) \<or> contains p cs)"

text \<open>\<^verbatim>\<open>_prepareSearchOperator\<close> returns the operator and changes the entry in place
  for \<^verbatim>\<open>ISNULL\<close> and \<^verbatim>\<open>NOT ISNULL\<close>; the model returns the entry with it.\<close>

definition prepareSearchOperator ::
  "jsval list \<Rightarrow> nat \<Rightarrow> nat \<Rightarrow> error + (jsval \<times> jsval list)"
where
  "prepareSearchOperator entry opIndex valueIndex =
     (if \<not> truthy (at entry opIndex) \<or> at entry opIndex = JUndefined then
        Inl MissingOperatorError
      else case at entry opIndex of
        JStr s \<Rightarrow>
          (let operator = toUpperCase (trim s) in
           if \<not> hasOwnProperty SQL_OPERATORS operator
              \<and> \<not> hasOwnProperty SQL_OPERATORS_ARRAY operator
           then Inl UnknownOperatorError
           else if contains ''ISNULL'' operator then
             (case newSqlClause (JStr (operator @ ''('' @ toStr (at entry 0) @ '')'')) JUndefined of
                Inl e \<Rightarrow> Inl e
              | Inr clause \<Rightarrow>
                  (let entry = put entry 0 clause;
                       entry = put entry valueIndex JUndefined
                   in case getLogicOperator (at entry valueIndex) [] of
                        Inl e \<Rightarrow> Inl e
                      | Inr logicOp \<Rightarrow> Inr (JStr [], put entry 3 (JStr logicOp))))
           else Inr (JStr operator, entry))
      | _ \<Rightarrow> Inl OperatorTypeError)"

definition prepareSearchValue ::
  "env \<Rightarrow> string \<Rightarrow> jsval list \<Rightarrow> nat \<Rightarrow> nat \<Rightarrow> jsval list \<Rightarrow> (error + jsval) \<times> jsval list"
where
  "prepareSearchValue E table entry opIndex valueIndex sqlValues =
     (if at entry valueIndex = JUndefined then (Inl MissingValueError, sqlValues)
      else
        let value0 = at entry valueIndex;
            operator = at entry opIndex;
            valueType = typeOf value0;
            placeholder = getColumnPlaceholder E table (at entry 0);
            arrayOp = hasOwnProperty SQL_OPERATORS_ARRAY (toStr operator);
            value = (case value0 of
                       JStr s \<Rightarrow> if arrayOp then JArr (map JStr (split_comma [] s)) else value0
                     | _ \<Rightarrow> value0)
        in
          if valueType = ''Array'' then
            (let xs = items value in
             if \<not> arrayOp then (Inl OperatorValueMismatchError, sqlValues)
             else if operator = JStr ''BETWEEN'' then
               (if length xs \<noteq> 2 then (Inl InvalidArityError, sqlValues)
                else case pushValue E (xs ! 0) sqlValues of
                  (Inl e, sqlValues) \<Rightarrow> (Inl e, sqlValues)
                | (Inr known0, sqlValues) \<Rightarrow>
                    (case pushValue E (xs ! 1) sqlValues of
                       (Inl e, sqlValues) \<Rightarrow> (Inl e, sqlValues)
                     | (Inr known1, sqlValues) \<Rightarrow>
                         (Inr (JStr (placeholder @ '' AND '' @ placeholder)), sqlValues)))
             else
               (case pushEach E placeholder xs 0 ''('' sqlValues of
                  (Inl e, sqlValues) \<Rightarrow> (Inl e, sqlValues)
                | (Inr tmp, sqlValues) \<Rightarrow> (Inr (JStr (tmp @ '')'')), sqlValues)))
          else case value of
            JClause sqlClause clauseValues \<Rightarrow> (Inr (JStr sqlClause), sqlValues @ clauseValues)
          | _ \<Rightarrow>
              (case pushValue E value sqlValues of
                 (Inl e, sqlValues) \<Rightarrow> (Inl e, sqlValues)
               | (Inr known, sqlValues) \<Rightarrow>
                   if \<not> known then (Inl UnsupportedValueTypeError, sqlValues)
                   else (Inr (JStr placeholder), sqlValues)))"


subsection \<open>The filter loop\<close>

text \<open>\<^verbatim>\<open>filter[t].slice(0)\<close>: arrays and strings have the method, every other value
  raises.\<close>

definition slice0 :: "jsval \<Rightarrow> error + jsval" where
  "slice0 v = (case v of JArr xs \<Rightarrow> Inr (JArr xs) | JStr s \<Rightarrow> Inr (JStr s) | _ \<Rightarrow> Inl TypeError)"

text \<open>The bracket branch of the loop body; it gives the new \<^verbatim>\<open>sql\<close> and
  \<^verbatim>\<open>openBracket\<close>.\<close>

definition filterBracket ::
  "string \<Rightarrow> jsval list \<Rightarrow> string \<Rightarrow> bool \<Rightarrow> error + (string \<times> bool)"
where
  "filterBracket operator entry sql openBracket =
     (if at entry 0 = JStr ''('' \<and> \<not> openBracket then
        (case getLogicOperator (at entry 1) operator of
           Inl e \<Rightarrow> Inl e
         | Inr logicOp \<Rightarrow> Inr (sql @ '' '' @ logicOp @ toStr (at entry 0), True))
      else if at entry 0 = JStr '')'' then Inr (sql @ toStr (at entry 0), False)
      else Inr (sql @ toStr (at entry 0), openBracket))"

text \<open>The loop body is modelled in the order of the source, one definition for each of
  its parts. First the tests on the copied entry, which give the array the remaining
  parts work on: a bracket given as a bare string is put into an array.\<close>

definition entryOf :: "jsval \<Rightarrow> error + jsval list" where
  "entryOf copy =
     (if \<not> truthy copy then Inl MissingEntryError
      else if typeOf copy \<noteq> ''Array'' then
        (if copy = JStr ''('' \<or> copy = JStr '')'' \<or> isClause copy then Inr [copy]
         else Inl EntryNotArrayError)
      else if \<not> truthy (at (items copy) 0) then Inl MissingFieldError
      else Inr (items copy))"

text \<open>Inside \<^verbatim>\<open>if (isString(entry[0]))\<close>: the value and the logic operator of a
  string clause, after its operator has been prepared.\<close>

definition filterClauseValue ::
  "env \<Rightarrow> string \<Rightarrow> string \<Rightarrow> jsval list \<Rightarrow> jsval list \<Rightarrow> (error + jsval list) \<times> jsval list"
where
  "filterClauseValue E table operator entry sqlValues =
     (case (if at entry 2 \<noteq> JUndefined then
              (case prepareSearchValue E table entry 1 2 sqlValues of
                 (Inl e, sqlValues) \<Rightarrow> (Inl e, sqlValues)
               | (Inr v, sqlValues) \<Rightarrow> (Inr (put entry 2 v), sqlValues))
            else (Inr entry, sqlValues)) of
        (Inl e, sqlValues) \<Rightarrow> (Inl e, sqlValues)
      | (Inr entry, sqlValues) \<Rightarrow>
          (case getLogicOperator (at entry 3) operator of
             Inl e \<Rightarrow> (Inl e, sqlValues)
           | Inr logicOp \<Rightarrow>
               if \<not> hasOwnProperty SQL_OPERATORS_LOGIC logicOp
               then (Inl UnsupportedLogicOperatorError, sqlValues)
               else (Inr (put entry 3 (JStr logicOp)), sqlValues)))"

text \<open>The branch \<^verbatim>\<open>if (isString(entry[0]))\<close> as a whole; the test is made once,
  before the operator is prepared.\<close>

definition filterStringClause ::
  "env \<Rightarrow> string \<Rightarrow> string \<Rightarrow> jsval list \<Rightarrow> jsval list \<Rightarrow> (error + jsval list) \<times> jsval list"
where
  "filterStringClause E table operator entry sqlValues =
     (if isString (at entry 0) then
        (case (if truthy (at entry 1) then
                 (case prepareSearchOperator entry 1 2 of
                    Inl e \<Rightarrow> Inl e
                  | Inr (op, entry) \<Rightarrow> Inr (put entry 1 op))
               else Inr entry) of
           Inl e \<Rightarrow> (Inl e, sqlValues)
         | Inr entry \<Rightarrow> filterClauseValue E table operator entry sqlValues)
      else (Inr entry, sqlValues))"

text \<open>The end of the loop body: the logic operator in front, then the clause. It gives
  the new \<^verbatim>\<open>sql\<close> and the entry, which \<^verbatim>\<open>entry.length = 3\<close> may have cut.\<close>

definition filterEmit ::
  "jsval list \<Rightarrow> string \<Rightarrow> bool \<Rightarrow> jsval list \<Rightarrow> (error + (string \<times> jsval list)) \<times> jsval list"
where
  "filterEmit entry sql openBracket sqlValues =
     (let sql = (if \<not> openBracket then sql @ '' '' @ toStr (at entry 3) @ '' '' else sql) in
      if isString (at entry 0) then
        (let entry = set_length entry 3
         in (Inr (sql @ ''('' @ join '' '' entry @ '')'', entry), sqlValues))
      else case at entry 0 of
        JClause sqlClause clauseValues \<Rightarrow>
          (Inr (sql @ ''('' @ sqlClause @ '')'', entry), sqlValues @ clauseValues)
      | _ \<Rightarrow> (Inl UnsupportedFieldTypeError, sqlValues))"

text \<open>One round of the loop \<^verbatim>\<open>for (var t = 0; t < filter.length; t++)\<close> on the element
  \<open>raw\<close> of the filter array. It gives \<^verbatim>\<open>sql\<close>, \<^verbatim>\<open>openBracket\<close> and what
  \<^verbatim>\<open>filter[t]\<close> holds afterwards: the assignment
  \<^verbatim>\<open>entry = filter[t] = filter[t].slice(0)\<close> stores the copy in the filter array, so
  for an array entry every later write to \<^verbatim>\<open>entry\<close> is a write to \<^verbatim>\<open>filter[t]\<close>.\<close>

definition filterEntry ::
  "env \<Rightarrow> string \<Rightarrow> string \<Rightarrow> jsval \<Rightarrow> string \<Rightarrow> bool \<Rightarrow> jsval list
     \<Rightarrow> (error + (string \<times> bool \<times> jsval)) \<times> jsval list"
where
  "filterEntry E table operator raw sql openBracket sqlValues =
     (case slice0 raw of
        Inl e \<Rightarrow> (Inl e, sqlValues)
      | Inr copy \<Rightarrow>
          let entryType = typeOf copy;
              stored = (\<lambda>entry. if entryType = ''Array'' then JArr entry else copy)
          in case entryOf copy of
            Inl e \<Rightarrow> (Inl e, sqlValues)
          | Inr entry \<Rightarrow>
              if at entry 0 = JStr ''('' \<or> at entry 0 = JStr '')'' then
                (case filterBracket operator entry sql openBracket of
                   Inl e \<Rightarrow> (Inl e, sqlValues)
                 | Inr (sql, openBracket) \<Rightarrow> (Inr (sql, openBracket, stored entry), sqlValues))
              else
                case (if entryType = ''String'' then
                        (case prepareColumnName (at entry 0) of
                           Inl e \<Rightarrow> Inl e
                         | Inr column \<Rightarrow> Inr (put entry 0 column))
                      else Inr entry) of
                  Inl e \<Rightarrow> (Inl e, sqlValues)
                | Inr entry \<Rightarrow>
                    (case filterStringClause E table operator entry sqlValues of
                       (Inl e, sqlValues) \<Rightarrow> (Inl e, sqlValues)
                     | (Inr entry, sqlValues) \<Rightarrow>
                         (case filterEmit entry sql openBracket sqlValues of
                            (Inl e, sqlValues) \<Rightarrow> (Inl e, sqlValues)
                          | (Inr (sql, entry), sqlValues) \<Rightarrow>
                              (Inr (sql, False, stored entry), sqlValues))))"

text \<open>The loop. With the SQL text it returns the elements of the filter array as the
  rounds left them.\<close>

fun filterLoop ::
  "env \<Rightarrow> string \<Rightarrow> string \<Rightarrow> jsval list \<Rightarrow> string \<Rightarrow> bool \<Rightarrow> jsval list
     \<Rightarrow> (error + (string \<times> jsval list)) \<times> jsval list"
where
  "filterLoop E table operator [] sql openBracket sqlValues = (Inr (sql, []), sqlValues)"
| "filterLoop E table operator (raw # rest) sql openBracket sqlValues =
     (case filterEntry E table operator raw sql openBracket sqlValues of
        (Inl e, sqlValues) \<Rightarrow> (Inl e, sqlValues)
      | (Inr (sql, openBracket, stored), sqlValues) \<Rightarrow>
          (case filterLoop E table operator rest sql openBracket sqlValues of
             (Inl e, sqlValues) \<Rightarrow> (Inl e, sqlValues)
           | (Inr (sql, done), sqlValues) \<Rightarrow> (Inr (sql, stored # done), sqlValues)))"

text \<open>The default operator of a call:
  \<^verbatim>\<open>(search.operator && search.operator.length) ? search.operator.toUpperCase() : "AND"\<close>.
  Strings and arrays have a length; only a string has \<^verbatim>\<open>toUpperCase\<close>.\<close>

definition searchOperator :: "jsval \<Rightarrow> error + string" where
  "searchOperator op =
     (if truthy op \<and> (case op of JStr s \<Rightarrow> s \<noteq> [] | JArr xs \<Rightarrow> xs \<noteq> [] | _ \<Rightarrow> False) then
        (case op of JStr s \<Rightarrow> Inr (toUpperCase s) | _ \<Rightarrow> Inl TypeError)
      else Inr ''AND'')"

text \<open>The array the loop runs on:
  \<^verbatim>\<open>if (!$.isArray(filter[0])) { filter = [filter]; }\<close>.\<close>

definition filterEntries :: "jsval list \<Rightarrow> jsval list" where
  "filterEntries filter0 = (if \<not> isArray (at filter0 0) then [JArr filter0] else filter0)"

text \<open>\<^verbatim>\<open>_buildSqlFromFilterArray\<close>. The result is the outcome (an error, or the SQL text
  together with the caller's filter array as the call leaves it) and the object with its
  \<^verbatim>\<open>_sqlValues\<close> as the call leaves them, also when it throws. When the first element
  of the filter is no array, the loop runs on a new array around the filter, and the
  caller's array is not written to. What an aborted call has written to the caller's
  filter array is not tracked.\<close>

definition buildSqlFromFilterArray ::
  "env \<Rightarrow> dbquery \<Rightarrow> search \<Rightarrow> (error + (string \<times> jsval)) \<times> dbquery"
where
  "buildSqlFromFilterArray E q search =
     (let q = q\<lparr>q_sqlValues := []\<rparr> in
      if \<not> isArray (s_filter search) then (Inl FilterNotArrayError, q)
      else if items (s_filter search) = [] then (Inr ([], s_filter search), q)
      else
        let filter0 = items (s_filter search) in
        case searchOperator (s_operator search) of
          Inl e \<Rightarrow> (Inl e, q)
        | Inr operator \<Rightarrow>
            if \<not> truthy (lookup SQL_OPERATORS_LOGIC operator) then (Inl UnknownConnectiveError, q)
            else
              let wrapped = (\<not> isArray (at filter0 0))
              in case filterLoop E (q_table q) operator (filterEntries filter0) [] True
                        (q_sqlValues q) of
                   (Inl e, sqlValues) \<Rightarrow> (Inl e, q\<lparr>q_sqlValues := sqlValues\<rparr>)
                 | (Inr (sql, done), sqlValues) \<Rightarrow>
                     (Inr (sql, if wrapped then JArr filter0 else JArr done),
                      q\<lparr>q_sqlValues := sqlValues\<rparr>))"


subsection \<open>ORDER BY, LIMIT and the column list\<close>

definition allowedDir :: "(string \<times> jsval) list" where
  "allowedDir = [(''ASC'', JBool True), (''DESC'', JBool True)]"

text \<open>One element of an \<^verbatim>\<open>orderBy\<close> array: the term it pushes, if any. The test of the
  direction is
  \<^verbatim>\<open>!orderBy[t][1] || !orderBy[t][1].toUpperCase() in allowedDir\<close>, in which
  \<^verbatim>\<open>!\<close> binds tighter than \<^verbatim>\<open>in\<close>: the key looked up in \<^verbatim>\<open>allowedDir\<close> is the
  negated string, a boolean. A direction that is truthy and no string has no
  \<^verbatim>\<open>toUpperCase\<close>.\<close>

definition orderByItem :: "jsval \<Rightarrow> error + string option" where
  "orderByItem item =
     (case item of
        JStr s \<Rightarrow> Inr (Some s)
      | JArr xs \<Rightarrow>
          if xs \<noteq> [] then
            (if \<not> truthy (at xs 1) then Inr (Some (join '' '' (put xs 1 (JStr ''ASC''))))
             else case at xs 1 of
               JStr d \<Rightarrow>
                 if hasOwnProperty allowedDir (toStr (JBool (\<not> truthy (JStr (toUpperCase d)))))
                 then Inr (Some (join '' '' (put xs 1 (JStr ''ASC''))))
                 else Inr (Some (join '' '' (put xs 1 (JStr (toUpperCase d)))))
             | _ \<Rightarrow> Inl TypeError)
          else Inr None
      | _ \<Rightarrow> Inr None)"

fun orderByLoop :: "jsval list \<Rightarrow> string list \<Rightarrow> error + string list" where
  "orderByLoop [] sqlOrderBy = Inr sqlOrderBy"
| "orderByLoop (item # rest) sqlOrderBy =
     (case orderByItem item of
        Inl e \<Rightarrow> Inl e
      | Inr None \<Rightarrow> orderByLoop rest sqlOrderBy
      | Inr (Some term) \<Rightarrow> orderByLoop rest (sqlOrderBy @ [term]))"

definition buildSqlOrderBy :: "jsval \<Rightarrow> error + string" where
  "buildSqlOrderBy orderBy =
     (if \<not> truthy orderBy then Inr []
      else case (case orderBy of
                   JArr xs \<Rightarrow> orderByLoop xs []
                 | JStr s \<Rightarrow> Inr [s]
                 | _ \<Rightarrow> Inr []) of
        Inl e \<Rightarrow> Inl e
      | Inr sqlOrderBy \<Rightarrow>
          Inr (if sqlOrderBy \<noteq> [] then '' ORDER BY '' @ join_strings '', '' sqlOrderBy else []))"

text \<open>\<^verbatim>\<open>_buildSqlLimit\<close> on numbers and arrays of numbers. An array with fewer than two
  elements, or whose second element is not positive, reaches the test
  \<^verbatim>\<open>isNumeric(limit)\<close>, which holds for an array of one number only.\<close>

definition buildSqlLimit :: "limit \<Rightarrow> string" where
  "buildSqlLimit lim =
     (case lim of
        NoLimit \<Rightarrow> []
      | LimitNumber n \<Rightarrow> if n = 0 then [] else ''LIMIT '' @ show_int n
      | LimitArray xs \<Rightarrow>
          if 2 \<le> length xs \<and> 0 < xs ! 1 then ''LIMIT '' @ show_int (xs ! 0) @ '', '' @ show_int (xs ! 1)
          else if length xs = 1 then ''LIMIT '' @ show_int (xs ! 0)
          else [])"

definition limitGiven :: "limit \<Rightarrow> bool" where
  \<comment> \<open>\<^verbatim>\<open>if (search.limit)\<close>\<close>
  "limitGiven lim = (case lim of NoLimit \<Rightarrow> False | LimitNumber n \<Rightarrow> n \<noteq> 0 | LimitArray xs \<Rightarrow> True)"

fun returnColumnsLoop :: "env \<Rightarrow> jsval list \<Rightarrow> jsval list \<Rightarrow> jsval list \<Rightarrow> error + jsval list" where
  "returnColumnsLoop E columns [] returnColumns = Inr returnColumns"
| "returnColumnsLoop E columns (c # rest) returnColumns =
     (if isString c then
        (if c \<notin> set columns then Inl UnknownColumnError
         else returnColumnsLoop E columns rest (returnColumns @ [c]))
      else if isObject E c then returnColumnsLoop E columns rest (returnColumns @ [c])
      else Inl UnacceptedColumnTypeError)"

definition searchPrepareReturnColumns :: "env \<Rightarrow> string \<Rightarrow> jsval \<Rightarrow> error + jsval list" where
  "searchPrepareReturnColumns E table columnList =
     (let columns = map JStr (db_getColumns E table) in
      if \<not> isArray columnList \<or> length (items columnList) < 1 then Inr columns
      else returnColumnsLoop E columns (items columnList) [])"

definition buildSqlColumns :: "jsval list \<Rightarrow> string" where
  "buildSqlColumns columns =
     join '', '' (map (\<lambda>column. case column of JClause sqlClause sqlValues \<Rightarrow> JStr sqlClause
                                       | _ \<Rightarrow> column) columns)"

subsection \<open>The build methods\<close>

text \<open>Each returns its outcome and the object as the call leaves it. In
  \<^verbatim>\<open>prepareSearch\<close> the test \<^verbatim>\<open>if (!returnColumns)\<close> never fires, the columns being an
  array.\<close>

definition prepareSearch :: "env \<Rightarrow> dbquery \<Rightarrow> search \<Rightarrow> (error + string) \<times> dbquery" where
  "prepareSearch E q search =
     (let search = (if \<not> truthy (s_columns search) then search\<lparr>s_columns := JNull\<rparr> else search) in
      case searchPrepareReturnColumns E (q_table q) (s_columns search) of
        Inl e \<Rightarrow> (Inl e, q)
      | Inr returnColumns \<Rightarrow>
          (case buildSqlFromFilterArray E q search of
             (Inl e, q) \<Rightarrow> (Inl e, q)
           | (Inr (sqlWhere, filter1), q) \<Rightarrow>
               let q = q\<lparr>q_sql := ''SELECT '' @ buildSqlColumns returnColumns @ '' FROM '' @ q_table q
                                   @ (if sqlWhere \<noteq> [] then '' WHERE '' @ sqlWhere else [])\<rparr>
               in case (if truthy (s_order search) then buildSqlOrderBy (s_order search) else Inr []) of
                    Inl e \<Rightarrow> (Inl e, q)
                  | Inr sqlOrderBy \<Rightarrow>
                      let q = q\<lparr>q_sql := q_sql q @ sqlOrderBy\<rparr>;
                          q = (if limitGiven (s_limit search)
                               then q\<lparr>q_sql := q_sql q @ buildSqlLimit (s_limit search)\<rparr> else q)
                      in (Inr (q_sql q), q)))"

definition prepareCount :: "env \<Rightarrow> dbquery \<Rightarrow> search \<Rightarrow> (error + string) \<times> dbquery" where
  "prepareCount E q search =
     (case buildSqlFromFilterArray E q search of
        (Inl e, q) \<Rightarrow> (Inl e, q)
      | (Inr (sqlWhere, filter1), q) \<Rightarrow>
          let q = q\<lparr>q_sql := ''SELECT COUNT(*) FROM '' @ q_table q\<rparr>;
              q = q\<lparr>q_sql := q_sql q @ (if sqlWhere \<noteq> [] then '' WHERE '' @ sqlWhere else [])\<rparr>
          in (Inr (q_sql q), q))"

definition prepareDeleteSearch :: "env \<Rightarrow> dbquery \<Rightarrow> search \<Rightarrow> (error + string) \<times> dbquery" where
  "prepareDeleteSearch E q search =
     (case buildSqlFromFilterArray E q search of
        (Inl e, q) \<Rightarrow> (Inl e, q)
      | (Inr (sqlWhere, filter1), q) \<Rightarrow>
          let q = q\<lparr>q_sql := ''DELETE FROM '' @ q_table q\<rparr>;
              q = q\<lparr>q_sql := q_sql q @ (if sqlWhere \<noteq> [] then '' WHERE '' @ sqlWhere else [])\<rparr>;
              q = q\<lparr>q_sql := q_sql q @ buildSqlLimit (s_limit search)\<rparr>
          in (Inr (q_sql q), q))"

text \<open>What a caller hands to \<^verbatim>\<open>count\<close>: a search object, or any other value.\<close>

datatype argument = SearchObject search | Value jsval

definition emptySearch :: search where
  \<comment> \<open>\<^verbatim>\<open>{filter: []}\<close>\<close>
  "emptySearch = \<lparr>s_filter = JArr [], s_operator = JUndefined, s_columns = JUndefined,
                    s_order = JUndefined, s_limit = NoLimit\<rparr>"

text \<open>\<^verbatim>\<open>count\<close> up to the statement it builds; running the statement
  (\<^verbatim>\<open>executeOneValue\<close>) is the storage adapter's part. The test is
  \<^verbatim>\<open>!$.isObject(search) || !search.filter\<close>. Of the values that are objects, an array
  inherits the method \<^verbatim>\<open>filter\<close>, which is truthy and is no array, so that
  \<^verbatim>\<open>_buildSqlFromFilterArray\<close> resets the values and rejects it; reading a property of
  \<open>null\<close> raises; a date, a clause and a plain object have no such property.\<close>

definition count :: "env \<Rightarrow> dbquery \<Rightarrow> argument \<Rightarrow> (error + string) \<times> dbquery" where
  "count E q arg =
     (case arg of
        SearchObject search \<Rightarrow>
          if \<not> truthy (s_filter search) then prepareCount E q emptySearch
          else prepareCount E q search
      | Value v \<Rightarrow>
          if \<not> isObject E v then prepareCount E q emptySearch
          else case v of
            JNull \<Rightarrow> (Inl TypeError, q)
          | JArr xs \<Rightarrow> (Inl FilterNotArrayError, q\<lparr>q_sqlValues := []\<rparr>)
          | _ \<Rightarrow> prepareCount E q emptySearch)"


section \<open>The vocabulary of the properties\<close>

text \<open>The spec's \<^verbatim>\<open>compile(filterSpec, defaultConnective)\<close> is
  \<^verbatim>\<open>_buildSqlFromFilterArray\<close> on a search object with these two properties; the
  compiled query is the SQL text it returns with the values it leaves in
  \<^verbatim>\<open>_sqlValues\<close>.\<close>

definition searchFor :: "jsval \<Rightarrow> jsval \<Rightarrow> search" where
  "searchFor filterSpec defaultConnective =
     \<lparr>s_filter = filterSpec, s_operator = defaultConnective, s_columns = JUndefined,
      s_order = JUndefined, s_limit = NoLimit\<rparr>"

definition compile :: "env \<Rightarrow> dbquery \<Rightarrow> jsval \<Rightarrow> jsval \<Rightarrow> error + (string \<times> jsval list)" where
  "compile E q filterSpec defaultConnective =
     (case buildSqlFromFilterArray E q (searchFor filterSpec defaultConnective) of
        (Inl e, q1) \<Rightarrow> Inl e
      | (Inr (sql, filter1), q1) \<Rightarrow> Inr (sql, q_sqlValues q1))"

text \<open>The caller's filter array after a successful \<^verbatim>\<open>compile\<close>.\<close>

definition filterAfter :: "env \<Rightarrow> dbquery \<Rightarrow> jsval \<Rightarrow> jsval \<Rightarrow> jsval option" where
  "filterAfter E q filterSpec defaultConnective =
     (case buildSqlFromFilterArray E q (searchFor filterSpec defaultConnective) of
        (Inl e, q1) \<Rightarrow> None
      | (Inr (sql, filter1), q1) \<Rightarrow> Some filter1)"

definition placeholders :: "string \<Rightarrow> nat" where
  \<comment> \<open>the number of \<^verbatim>\<open>?\<close> in a piece of SQL text\<close>
  "placeholders s = count_list s (CHR ''?'')"







text \<open>The SQL text and the values grow together: the values \<open>w\<close> are appended, and
  what is appended to the text has as many placeholders.\<close>

definition binds :: "string \<Rightarrow> jsval list \<Rightarrow> string \<Rightarrow> jsval list \<Rightarrow> jsval list \<Rightarrow> bool" where
  "binds sql vals sql1 vals1 w =
     (\<exists>s. sql1 = sql @ s \<and> vals1 = vals @ w \<and> placeholders s = length w)"

definition carriesFilter :: "argument \<Rightarrow> bool" where
  \<comment> \<open>an object with a property \<^verbatim>\<open>filter\<close>, own or inherited\<close>
  "carriesFilter arg =
     (case arg of SearchObject search \<Rightarrow> s_filter search \<noteq> JUndefined | Value v \<Rightarrow> isArray v)"

text \<open>A storage adapter that knows no column, so that every placeholder is
  \<^verbatim>\<open>?\<close>, and a query object that holds an earlier statement; the examples below
  run on them.\<close>

definition plainEnv :: env where
  "plainEnv =
     \<lparr>db_columnExists = (\<lambda>table column. False),
      db_getColumnPlaceholder = (\<lambda>table column. ''?''),
      db_getColumns = (\<lambda>table. [''a'', ''b'', ''c'']),
      numericString = (\<lambda>s. s \<noteq> [] \<and> list_all (\<lambda>c. c \<in> set ''0123456789'') s),
      nullIsObject = False\<rparr>"

definition usedQuery :: dbquery where
  "usedQuery = \<lparr>q_table = ''t'', q_sql = ''SELECT a FROM t WHERE (a = ?)'', q_sqlValues = [JNum 7]\<rparr>"

section \<open>Properties\<close>

subsection \<open>Evaluation\<close>

lemma show_nat_not_Nil: "show_nat n \<noteq> []"
  by (subst show_nat.simps) simp

lemma hasOwnProperty_flipToObject [simp]: "hasOwnProperty (flipToObject xs) k = (k \<in> set xs)"
  by (simp add: hasOwnProperty_def flipToObject_def map_of_zip_is_None)

lemma truthy_lookup_flipToObject [simp]: "truthy (lookup (flipToObject xs) k) = (k \<in> set xs)"
proof (cases "k \<in> set xs")
  case False
  then have "map_of (flipToObject xs) k = None"
    by (simp add: flipToObject_def map_of_zip_is_None)
  then show ?thesis using False by (simp add: lookup_def)
next
  case True
  then obtain v where v: "map_of (flipToObject xs) k = Some v"
    using hasOwnProperty_flipToObject [of xs k] by (auto simp: hasOwnProperty_def)
  then have "(k, v) \<in> set (flipToObject xs)" by (rule map_of_SomeD)
  then have "v \<in> set (map (\<lambda>t. JStr (show_nat t)) [0..<length xs])"
    unfolding flipToObject_def by (rule set_zip_rightD)
  then obtain t where "v = JStr (show_nat t)" by auto
  then show ?thesis using True v by (simp add: lookup_def show_nat_not_Nil)
qed

lemmas catalog_defs = SQL_OPERATORS_def SQL_OPERATORS_ARRAY_def SQL_OPERATORS_LOGIC_def

lemmas string_defs = toUpperCase_def toLowerCase_def upper_char_def lower_char_def
  lower_letters_def upper_letters_def trim_def is_space_def

lemmas value_defs = at_def put_def set_length_def items_def isString_def isClause_def
  isArray_def join_def join_item_def quote_def

lemmas build_defs = buildSqlFromFilterArray_def filterEntries_def searchOperator_def
  filterEntry_def entryOf_def filterStringClause_def filterClauseValue_def filterEmit_def
  filterBracket_def slice0_def prepareSearchValue_def prepareSearchOperator_def pushValue_def
  getLogicOperator_def prepareColumnName_def newSqlClause_def isNumeric_def

lemmas example_defs = compile_def filterAfter_def searchFor_def plainEnv_def usedQuery_def


subsection \<open>Logic operators\<close>

lemma logic_keys: "k \<in> set [''AND'', ''OR'', ''XOR'', ''NOT''] \<Longrightarrow> toUpperCase k = k \<and> k \<noteq> []"
  by (auto simp: string_defs)

lemma getLogicOperator_valid:
  assumes "truthy (lookup SQL_OPERATORS_LOGIC operator)"
      and "getLogicOperator c operator = Inr l"
  shows "hasOwnProperty SQL_OPERATORS_LOGIC l"
proof -
  from assms(1) have k: "operator \<in> set [''AND'', ''OR'', ''XOR'', ''NOT'']"
    by (simp add: SQL_OPERATORS_LOGIC_def)
  then have u: "toUpperCase operator = operator" "operator \<noteq> []"
    using logic_keys by blast+
  show ?thesis
  proof (cases "truthy c")
    case False
    with assms(2) u have "l = operator" by (simp add: getLogicOperator_def)
    with k show ?thesis by (simp add: SQL_OPERATORS_LOGIC_def)
  next
    case True
    with assms(2) u k show ?thesis
      by (cases c) (auto simp: getLogicOperator_def SQL_OPERATORS_LOGIC_def split: if_splits)
  qed
qed

lemma getLogicOperator_unknown:
  "toUpperCase tok \<notin> set [''AND'', ''OR'', ''XOR'', ''NOT'']
   \<Longrightarrow> getLogicOperator (JStr tok) operator = getLogicOperator JUndefined operator"
  by (simp add: getLogicOperator_def SQL_OPERATORS_LOGIC_def Let_def)

subsection \<open>A \<open>null\<close> value\<close>

text \<open>C1 as stated fails: for the predicate \<^verbatim>\<open>["a", "=", null]\<close> the SQL text has a
  placeholder in the value position, not the keyword \<^verbatim>\<open>NULL\<close>, and the string
  \<^verbatim>\<open>"NULL"\<close> is appended to the parameter list.\<close>

theorem null_value_counterexample:
  "compile plainEnv usedQuery (JArr [JArr [JStr ''a'', JStr ''='', JNull]]) (JStr ''AND'')
     = Inr (''(a = ?)'', [JStr ''NULL''])"
  by (simp add: example_defs build_defs getColumnPlaceholder_def value_defs string_defs
      catalog_defs Let_def)

text \<open>C1, amended. For every filter predicate \<^verbatim>\<open>[column, operator, null]\<close>, with or
  without a connective, whose operator is in the catalog of scalar operators and is not
  \<^verbatim>\<open>ISNULL\<close> or \<^verbatim>\<open>NOT ISNULL\<close>, the round of the loop emits the clause
  \<^verbatim>\<open>(column OPERATOR placeholder)\<close> with the placeholder of the column in the value
  position, and appends exactly the string \<^verbatim>\<open>"NULL"\<close> to the parameter list.\<close>

theorem null_value_is_bound:
  assumes col: "column \<noteq> []" "column \<noteq> ''(''" "column \<noteq> '')''"
      and op: "hasOwnProperty SQL_OPERATORS (toUpperCase (trim op))"
              "\<not> contains ''ISNULL'' (toUpperCase (trim op))"
      and dflt: "truthy (lookup SQL_OPERATORS_LOGIC operator)"
      and conn: "getLogicOperator connective operator = Inr logicOp"
  shows "filterEntry E table operator (JArr [JStr column, JStr op, JNull, connective])
           sql openBracket sqlValues
         = (Inr (sql @ (if openBracket then [] else '' '' @ logicOp @ '' '')
                   @ ''('' @ column @ '' '' @ toUpperCase (trim op) @ '' ''
                   @ getColumnPlaceholder E table (JStr column) @ '')'',
                 False,
                 JArr [JStr column, JStr (toUpperCase (trim op)),
                       JStr (getColumnPlaceholder E table (JStr column))]),
            sqlValues @ [JStr ''NULL''])"
proof -
  have opne: "op \<noteq> []"
    using op(1) by (auto simp: SQL_OPERATORS_def string_defs)
  have lg: "hasOwnProperty SQL_OPERATORS_LOGIC logicOp"
    using getLogicOperator_valid [OF dflt conn] .
  have o: "prepareSearchOperator [JStr column, JStr op, JNull, connective] 1 2
           = Inr (JStr (toUpperCase (trim op)), [JStr column, JStr op, JNull, connective])"
    using op opne by (simp add: prepareSearchOperator_def at_def Let_def)
  have v: "prepareSearchValue E table
             [JStr column, JStr (toUpperCase (trim op)), JNull, connective] 1 2 sqlValues
           = (Inr (JStr (getColumnPlaceholder E table (JStr column))), sqlValues @ [JStr ''NULL''])"
    by (simp add: prepareSearchValue_def pushValue_def at_def Let_def isString_def isNumeric_def)
  have s: "filterStringClause E table operator [JStr column, JStr op, JNull, connective] sqlValues
           = (Inr [JStr column, JStr (toUpperCase (trim op)),
                   JStr (getColumnPlaceholder E table (JStr column)), JStr logicOp],
              sqlValues @ [JStr ''NULL''])"
    using opne lg conn o v
    by (simp add: filterStringClause_def filterClauseValue_def at_def put_def isString_def)
  show ?thesis
    using col
    by (simp add: filterEntry_def entryOf_def filterEmit_def slice0_def s value_defs Let_def)
qed

theorem null_value_is_bound_witness:
  "filterEntry plainEnv ''t'' ''AND'' (JArr [JStr ''a'', JStr ''<>'', JNull, JStr ''or''])
     ''(b = ?)'' False [JNum 1]
   = (Inr (''(b = ?) OR (a <> ?)'', False, JArr [JStr ''a'', JStr ''<>'', JStr ''?'']),
      [JNum 1, JStr ''NULL''])"
  using null_value_is_bound [where column = "''a''" and op = "''<>''" and operator = "''AND''"
      and connective = "JStr ''or''" and logicOp = "''OR''" and E = plainEnv and table = "''t''"
      and sql = "''(b = ?)''" and openBracket = False and sqlValues = "[JNum 1]"]
  by (simp add: getLogicOperator_def getColumnPlaceholder_def plainEnv_def catalog_defs
      string_defs)

subsection \<open>The caller's filter array\<close>

text \<open>C3 fails on the code. Compiling \<^verbatim>\<open>[["a", "=", 1]]\<close> gives \<^verbatim>\<open>(a = ?)\<close> with the
  values \<^verbatim>\<open>[1]\<close>, and leaves the caller's filter array as \<^verbatim>\<open>[["a", "=", "?"]]\<close>: the
  copy of the entry was stored in the array before it was rewritten. Compiling that array
  again gives the same text with the values \<^verbatim>\<open>["?"]\<close>.\<close>

theorem compile_rewrites_caller_filter:
  "compile plainEnv usedQuery (JArr [JArr [JStr ''a'', JStr ''='', JNum 1]]) JUndefined
     = Inr (''(a = ?)'', [JNum 1])
   \<and> filterAfter plainEnv usedQuery (JArr [JArr [JStr ''a'', JStr ''='', JNum 1]]) JUndefined
     = Some (JArr [JArr [JStr ''a'', JStr ''='', JStr ''?'']])
   \<and> compile plainEnv usedQuery (JArr [JArr [JStr ''a'', JStr ''='', JStr ''?'']]) JUndefined
     = Inr (''(a = ?)'', [JStr ''?''])"
  by (simp add: example_defs build_defs getColumnPlaceholder_def value_defs string_defs
      catalog_defs Let_def)

subsection \<open>Column names\<close>

text \<open>C5 fails on the code. The column of the predicate \<^verbatim>\<open>[" Name ", "=", 1]\<close> is emitted
  as it was given, neither trimmed nor lower-cased: \<^verbatim>\<open>_prepareColumnName\<close> is called
  only when the entry itself is a string, and such an entry is a bracket.\<close>

theorem column_is_emitted_verbatim:
  "compile plainEnv usedQuery (JArr [JArr [JStr '' Name '', JStr ''='', JNum 1]]) (JStr ''AND'')
     = Inr (''( Name  = ?)'', [JNum 1])"
  by (simp add: example_defs build_defs getColumnPlaceholder_def value_defs string_defs
      catalog_defs Let_def)

subsection \<open>\<^verbatim>\<open>ISNULL\<close>\<close>

text \<open>C6 fails on the code. With the default connective \<^verbatim>\<open>OR\<close> and the override
  \<^verbatim>\<open>OR\<close> on the entry \<^verbatim>\<open>["b", "ISNULL", null, "OR"]\<close>, the clause
  \<^verbatim>\<open>(ISNULL(b))\<close> is joined with \<^verbatim>\<open>AND\<close>: \<^verbatim>\<open>_prepareSearchOperator\<close>
  overwrites the connective of the entry with the logic operator of the value it has
  just set to \<open>undefined\<close>.\<close>

theorem isnull_connective_is_and:
  "compile plainEnv usedQuery
     (JArr [JArr [JStr ''a'', JStr ''='', JNum 1],
            JArr [JStr ''b'', JStr ''ISNULL'', JNull, JStr ''OR'']])
     (JStr ''OR'')
     = Inr (''(a = ?) AND (ISNULL(b))'', [JNum 1])"
  by (simp add: example_defs build_defs getColumnPlaceholder_def value_defs string_defs
      catalog_defs Let_def)

text \<open>The same for every predicate with \<^verbatim>\<open>ISNULL\<close>, whatever its value, its override
  and the default connective of the call are.\<close>

lemma isnull_entry_is_rewritten:
  assumes "truthy (lookup SQL_OPERATORS_LOGIC operator)"
  shows "filterStringClause E table operator [JStr column, JStr ''ISNULL'', v, c] vals
         = (Inr [JClause (''ISNULL('' @ column @ '')'') [], JStr [], JUndefined, JStr ''AND''],
            vals)"
proof -
  have o: "prepareSearchOperator [JStr column, JStr ''ISNULL'', v, c] 1 2
           = Inr (JStr [], [JClause (''ISNULL('' @ column @ '')'') [], JStr ''ISNULL'',
                            JUndefined, JStr ''AND''])"
    by (simp add: prepareSearchOperator_def newSqlClause_def getLogicOperator_def value_defs
        string_defs catalog_defs Let_def)
  from assms have "operator \<in> set [''AND'', ''OR'', ''XOR'', ''NOT'']"
    by (simp add: SQL_OPERATORS_LOGIC_def)
  then have l: "getLogicOperator (JStr ''AND'') operator = Inr ''AND''"
    by (simp add: getLogicOperator_def string_defs catalog_defs)
  show ?thesis
    using o l
    by (simp add: filterStringClause_def filterClauseValue_def value_defs catalog_defs)
qed

subsection \<open>ORDER BY\<close>

text \<open>C7 fails on the code. The pair \<^verbatim>\<open>["a", "sideways"]\<close> gives the ordering term
  \<^verbatim>\<open>a SIDEWAYS\<close>, not \<^verbatim>\<open>a ASC\<close>: the direction is upper-cased and kept.\<close>

theorem order_direction_is_kept:
  "buildSqlOrderBy (JArr [JArr [JStr ''a'', JStr ''sideways'']]) = Inr '' ORDER BY a SIDEWAYS''"
  by (simp add: buildSqlOrderBy_def orderByItem_def allowedDir_def hasOwnProperty_def
      value_defs string_defs)

text \<open>Every direction that is a string and not empty is upper-cased and kept; a
  direction that is missing becomes \<^verbatim>\<open>ASC\<close>.\<close>

lemma order_direction_upper_cased:
  "d \<noteq> [] \<Longrightarrow> orderByItem (JArr [JStr c, JStr d]) = Inr (Some (c @ '' '' @ toUpperCase d))"
  by (simp add: orderByItem_def allowedDir_def hasOwnProperty_def value_defs toUpperCase_def)

lemma order_direction_missing:
  "orderByItem (JArr [JStr c]) = Inr (Some (c @ '' ASC''))"
  by (simp add: orderByItem_def value_defs)

subsection \<open>The example with brackets\<close>

text \<open>C9. Compiling
  \<^verbatim>\<open>[["("], ["a","=",1], ["b","!=",1], [")"], ["c","IN",[6,7,8,9],"OR"]]\<close> with the default
  connective \<^verbatim>\<open>AND\<close> gives exactly the SQL text
  \<^verbatim>\<open>((a = ?) AND (b != ?)) OR (c IN (?, ?, ?, ?))\<close> and the parameter list
  \<^verbatim>\<open>[1, 1, 6, 7, 8, 9]\<close>, on every storage adapter whose placeholder for the columns
  \<^verbatim>\<open>a\<close>, \<^verbatim>\<open>b\<close> and \<^verbatim>\<open>c\<close> is \<^verbatim>\<open>?\<close>.\<close>

theorem bracket_example:
  assumes "getColumnPlaceholder E (q_table q) (JStr ''a'') = ''?''"
      and "getColumnPlaceholder E (q_table q) (JStr ''b'') = ''?''"
      and "getColumnPlaceholder E (q_table q) (JStr ''c'') = ''?''"
  shows "compile E q
           (JArr [JArr [JStr ''(''], JArr [JStr ''a'', JStr ''='', JNum 1],
                  JArr [JStr ''b'', JStr ''!='', JNum 1], JArr [JStr '')''],
                  JArr [JStr ''c'', JStr ''IN'', JArr [JNum 6, JNum 7, JNum 8, JNum 9],
                        JStr ''OR'']])
           (JStr ''AND'')
         = Inr (''((a = ?) AND (b != ?)) OR (c IN (?, ?, ?, ?))'',
                [JNum 1, JNum 1, JNum 6, JNum 7, JNum 8, JNum 9])"
  using assms
  by (simp add: compile_def searchFor_def build_defs value_defs string_defs catalog_defs Let_def)

theorem bracket_example_witness:
  "compile plainEnv usedQuery
           (JArr [JArr [JStr ''(''], JArr [JStr ''a'', JStr ''='', JNum 1],
                  JArr [JStr ''b'', JStr ''!='', JNum 1], JArr [JStr '')''],
                  JArr [JStr ''c'', JStr ''IN'', JArr [JNum 6, JNum 7, JNum 8, JNum 9],
                        JStr ''OR'']])
           (JStr ''AND'')
         = Inr (''((a = ?) AND (b != ?)) OR (c IN (?, ?, ?, ?))'',
                [JNum 1, JNum 1, JNum 6, JNum 7, JNum 8, JNum 9])"
  by (rule bracket_example [of plainEnv usedQuery])
     (simp_all add: getColumnPlaceholder_def plainEnv_def)


subsection \<open>Unknown connectives\<close>

lemma prepareSearchValue_first3:
  "prepareSearchValue E table [c, op, v, t] 1 2 vals = prepareSearchValue E table [c, op, v] 1 2 vals"
  by (simp add: prepareSearchValue_def at_def)

lemma prepareSearchOperator_Inl:
  "prepareSearchOperator [c, op, v] 1 2 = Inl e \<Longrightarrow> prepareSearchOperator [c, op, v, t] 1 2 = Inl e"
  by (auto simp: prepareSearchOperator_def at_def put_def Let_def getLogicOperator_def
      newSqlClause_def split: jsval.splits if_splits)

lemma prepareSearchOperator_Inr:
  assumes "prepareSearchOperator [c, op, v] 1 2 = Inr (op1, entry)"
  shows "(entry = [c, op, v] \<and> prepareSearchOperator [c, op, v, t] 1 2 = Inr (op1, [c, op, v, t]))
         \<or> (length entry = 4 \<and> prepareSearchOperator [c, op, v, t] 1 2 = Inr (op1, entry))"
  using assms
  by (auto simp: prepareSearchOperator_def at_def put_def Let_def getLogicOperator_def
      newSqlClause_def split: jsval.splits if_splits)

lemma filterClauseValue_unknown:
  assumes "toUpperCase tok \<notin> set [''AND'', ''OR'', ''XOR'', ''NOT'']"
  shows "filterClauseValue E table operator [c, op1, v, JStr tok] vals
         = filterClauseValue E table operator [c, op1, v] vals"
proof -
  note g = getLogicOperator_unknown [OF assms, of operator]
  obtain r vals1 where pv: "prepareSearchValue E table [c, op1, v] 1 2 vals = (r, vals1)"
    by fastforce
  then have pv4: "prepareSearchValue E table [c, op1, v, JStr tok] 1 2 vals = (r, vals1)"
    by (simp only: prepareSearchValue_first3)
  show ?thesis
    using pv pv4 g
    by (cases r) (simp_all add: filterClauseValue_def at_def put_def split: sum.splits)
qed

lemma filterStringClause_unknown:
  assumes "toUpperCase tok \<notin> set [''AND'', ''OR'', ''XOR'', ''NOT'']"
  shows "filterStringClause E table operator [JStr column, op, v, JStr tok] vals
         = filterStringClause E table operator [JStr column, op, v] vals"
proof (cases "truthy op")
  case False
  then show ?thesis
    using filterClauseValue_unknown [OF assms]
    by (simp add: filterStringClause_def isString_def at_def)
next
  case True
  show ?thesis
  proof (cases "prepareSearchOperator [JStr column, op, v] 1 2")
    case (Inl e)
    then show ?thesis using True prepareSearchOperator_Inl [OF Inl, of "JStr tok"]
      by (simp add: filterStringClause_def isString_def at_def)
  next
    case (Inr r)
    obtain op1 entry where r: "r = (op1, entry)" by (cases r)
    from prepareSearchOperator_Inr [OF Inr [unfolded r], of "JStr tok"]
    show ?thesis
    proof
      assume a: "entry = [JStr column, op, v] \<and>
        prepareSearchOperator [JStr column, op, v, JStr tok] 1 2 = Inr (op1, [JStr column, op, v, JStr tok])"
      have p4: "put [JStr column, op, v, JStr tok] 1 op1 = [JStr column, op1, v, JStr tok]"
        and p3: "put [JStr column, op, v] 1 op1 = [JStr column, op1, v]"
        by (simp_all add: put_def)
      show ?thesis
        using True a Inr r filterClauseValue_unknown [OF assms] p3 p4
        by (simp add: filterStringClause_def isString_def at_def)
    next
      assume a: "length entry = 4 \<and>
        prepareSearchOperator [JStr column, op, v, JStr tok] 1 2 = Inr (op1, entry)"
      show ?thesis
        using True a Inr r
        by (simp add: filterStringClause_def isString_def at_def)
    qed
  qed
qed

lemma filterEntry_unknown:
  assumes "toUpperCase tok \<notin> set [''AND'', ''OR'', ''XOR'', ''NOT'']"
      and "column \<noteq> ''(''" and "column \<noteq> '')''"
  shows "filterEntry E table operator (JArr [JStr column, op, v, JStr tok]) sql openBracket vals
         = filterEntry E table operator (JArr [JStr column, op, v]) sql openBracket vals"
  using assms(2,3) filterStringClause_unknown [OF assms(1), of E table operator column op v vals]
  by (simp add: filterEntry_def entryOf_def slice0_def at_def items_def Let_def
      split: prod.splits sum.splits)

text \<open>C8 as stated fails: the unknown token \<^verbatim>\<open>MAYBE\<close> as the connective override of
  an entry raises nothing; the entry is joined with the default connective.\<close>

theorem unknown_override_counterexample:
  "compile plainEnv usedQuery
     (JArr [JArr [JStr ''a'', JStr ''='', JNum 1], JArr [JStr ''b'', JStr ''='', JNum 2, JStr ''MAYBE'']])
     (JStr ''AND'')
     = Inr (''(a = ?) AND (b = ?)'', [JNum 1, JNum 2])"
  by (simp add: example_defs build_defs getColumnPlaceholder_def value_defs string_defs
      catalog_defs Let_def)

text \<open>C8, amended. For every connective token outside \<^verbatim>\<open>AND\<close>, \<^verbatim>\<open>OR\<close>,
  \<^verbatim>\<open>XOR\<close>, \<^verbatim>\<open>NOT\<close> (compared in upper case): supplied as the default connective
  of a compile call, and not empty, it makes the compilation of every filter array that is
  not empty fail with the unknown-connective error; supplied as the connective override
  of a column predicate, it is ignored, the round of the loop being the one of the same
  predicate without override.\<close>

theorem unknown_connective:
  assumes "toUpperCase tok \<notin> set [''AND'', ''OR'', ''XOR'', ''NOT'']"
  shows "(tok \<noteq> [] \<longrightarrow> compile E q (JArr (x # xs)) (JStr tok) = Inl UnknownConnectiveError)
         \<and> (column \<noteq> ''('' \<and> column \<noteq> '')'' \<longrightarrow>
              filterEntry E table operator (JArr [JStr column, op, v, JStr tok]) sql openBracket vals
              = filterEntry E table operator (JArr [JStr column, op, v]) sql openBracket vals)"
proof (intro conjI impI)
  assume "tok \<noteq> []"
  with assms show "compile E q (JArr (x # xs)) (JStr tok) = Inl UnknownConnectiveError"
    by (simp add: compile_def searchFor_def buildSqlFromFilterArray_def searchOperator_def
        isArray_def items_def SQL_OPERATORS_LOGIC_def Let_def)
next
  assume "column \<noteq> ''('' \<and> column \<noteq> '')''"
  with assms
  show "filterEntry E table operator (JArr [JStr column, op, v, JStr tok]) sql openBracket vals
        = filterEntry E table operator (JArr [JStr column, op, v]) sql openBracket vals"
    by (simp add: filterEntry_unknown)
qed

theorem unknown_connective_witness:
  "compile plainEnv usedQuery (JArr [JArr [JStr ''a'', JStr ''='', JNum 1]]) (JStr ''maybe'')
     = Inl UnknownConnectiveError
   \<and> filterEntry plainEnv ''t'' ''AND'' (JArr [JStr ''b'', JStr ''='', JNum 2, JStr ''maybe''])
        ''(a = ?)'' False [JNum 1]
     = (Inr (''(a = ?) AND (b = ?)'', False, JArr [JStr ''b'', JStr ''='', JStr ''?'']),
        [JNum 1, JNum 2])"
proof -
  have e: "filterEntry plainEnv ''t'' ''AND'' (JArr [JStr ''b'', JStr ''='', JNum 2])
             ''(a = ?)'' False [JNum 1]
           = (Inr (''(a = ?) AND (b = ?)'', False, JArr [JStr ''b'', JStr ''='', JStr ''?'']),
              [JNum 1, JNum 2])"
    by (simp add: example_defs build_defs getColumnPlaceholder_def value_defs string_defs
        catalog_defs Let_def)
  show ?thesis
    using e unknown_connective [where tok = "''maybe''" and E = plainEnv and q = usedQuery
        and x = "JArr [JStr ''a'', JStr ''='', JNum 1]" and xs = "[]" and column = "''b''"
        and table = "''t''" and operator = "''AND''" and op = "JStr ''=''" and v = "JNum 2"
        and sql = "''(a = ?)''" and openBracket = False and vals = "[JNum 1]"]
    by (simp add: string_defs)
qed

subsection \<open>The cached query after a failed build\<close>

lemma buildSqlFromFilterArray_sql:
  "q_sql (snd (buildSqlFromFilterArray E q s)) = q_sql q"
  by (simp add: buildSqlFromFilterArray_def Let_def split: sum.splits prod.splits)

text \<open>C4 as stated fails: a \<^verbatim>\<open>prepareCount\<close> that raises on the unknown operator of
  its second entry leaves the parameter list \<^verbatim>\<open>[1]\<close> in the object, which held
  \<^verbatim>\<open>[7]\<close> before the call.\<close>

theorem failed_build_counterexample:
  "prepareCount plainEnv usedQuery
     (searchFor (JArr [JArr [JStr ''a'', JStr ''='', JNum 1], JArr [JStr ''b'', JStr ''FOO'', JNum 2]])
        (JStr ''AND''))
     = (Inl UnknownOperatorError,
        \<lparr>q_table = ''t'', q_sql = ''SELECT a FROM t WHERE (a = ?)'', q_sqlValues = [JNum 1]\<rparr>)
   \<and> q_sqlValues usedQuery = [JNum 7]"
  by (simp add: prepareCount_def example_defs build_defs getColumnPlaceholder_def value_defs
      string_defs catalog_defs Let_def)

text \<open>C4, amended. Whenever \<^verbatim>\<open>_buildSqlFromFilterArray\<close>, \<^verbatim>\<open>prepareCount\<close> or
  \<^verbatim>\<open>prepareDeleteSearch\<close> raises an error, and whenever \<^verbatim>\<open>prepareSearch\<close> raises one
  on a search object whose \<^verbatim>\<open>order\<close> is one that \<^verbatim>\<open>_buildSqlOrderBy\<close> accepts, the
  stored SQL string is the one from before the failing call. (The stored parameter list
  is not kept: the filter compiler empties it when it starts.)\<close>

theorem failed_build_keeps_sql:
  "(buildSqlFromFilterArray E q s = (Inl e, q1) \<longrightarrow> q_sql q1 = q_sql q)
   \<and> (prepareCount E q s = (Inl e, q1) \<longrightarrow> q_sql q1 = q_sql q)
   \<and> (prepareDeleteSearch E q s = (Inl e, q1) \<longrightarrow> q_sql q1 = q_sql q)
   \<and> (prepareSearch E q s = (Inl e, q1) \<and> buildSqlOrderBy (s_order s) = Inr sqlOrderBy
        \<longrightarrow> q_sql q1 = q_sql q)"
proof (intro conjI impI)
  assume "buildSqlFromFilterArray E q s = (Inl e, q1)"
  then show "q_sql q1 = q_sql q"
    using buildSqlFromFilterArray_sql [of E q s] by simp
next
  assume "prepareCount E q s = (Inl e, q1)"
  then show "q_sql q1 = q_sql q"
    using buildSqlFromFilterArray_sql [of E q s]
    by (auto simp: prepareCount_def Let_def split: sum.splits prod.splits)
next
  assume "prepareDeleteSearch E q s = (Inl e, q1)"
  then show "q_sql q1 = q_sql q"
    using buildSqlFromFilterArray_sql [of E q s]
    by (auto simp: prepareDeleteSearch_def Let_def split: sum.splits prod.splits)
next
  assume a: "prepareSearch E q s = (Inl e, q1) \<and> buildSqlOrderBy (s_order s) = Inr sqlOrderBy"
  define s1 where "s1 = (if \<not> truthy (s_columns s) then s\<lparr>s_columns := JNull\<rparr> else s)"
  have o: "s_order s1 = s_order s" by (simp add: s1_def)
  from a show "q_sql q1 = q_sql q"
    using buildSqlFromFilterArray_sql [of E q s1] o
    by (auto simp: prepareSearch_def Let_def s1_def [symmetric] split: sum.splits prod.splits if_splits)
qed

theorem failed_build_keeps_sql_witness:
  "prepareSearch plainEnv usedQuery
     (searchFor (JArr [JArr [JStr ''a'', JStr ''='', JNum 1], JArr [JStr ''b'', JStr ''FOO'', JNum 2]])
        (JStr ''AND''))
     = (Inl UnknownOperatorError,
        \<lparr>q_table = ''t'', q_sql = ''SELECT a FROM t WHERE (a = ?)'', q_sqlValues = [JNum 1]\<rparr>)
   \<and> q_sql usedQuery = ''SELECT a FROM t WHERE (a = ?)''"
proof -
  let ?s = "searchFor (JArr [JArr [JStr ''a'', JStr ''='', JNum 1],
                             JArr [JStr ''b'', JStr ''FOO'', JNum 2]]) (JStr ''AND'')"
  let ?q1 = "\<lparr>q_table = ''t'', q_sql = ''SELECT a FROM t WHERE (a = ?)'', q_sqlValues = [JNum 1]\<rparr>"
  have b: "buildSqlFromFilterArray plainEnv usedQuery ?s = (Inl UnknownOperatorError, ?q1)"
    by (simp add: example_defs build_defs getColumnPlaceholder_def value_defs string_defs
        catalog_defs Let_def)
  have b1: "buildSqlFromFilterArray plainEnv usedQuery (?s\<lparr>s_columns := JNull\<rparr>)
            = (Inl UnknownOperatorError, ?q1)"
    by (simp add: example_defs build_defs getColumnPlaceholder_def value_defs string_defs
        catalog_defs Let_def)
  have c: "prepareCount plainEnv usedQuery ?s = (Inl UnknownOperatorError, ?q1)"
    by (simp add: prepareCount_def b)
  have d: "prepareDeleteSearch plainEnv usedQuery ?s = (Inl UnknownOperatorError, ?q1)"
    by (simp add: prepareDeleteSearch_def b)
  have p: "prepareSearch plainEnv usedQuery ?s = (Inl UnknownOperatorError, ?q1)"
    using b1
    by (simp add: prepareSearch_def searchPrepareReturnColumns_def searchFor_def isArray_def)
  have o: "buildSqlOrderBy (s_order ?s) = Inr []"
    by (simp add: buildSqlOrderBy_def searchFor_def)
  show ?thesis
    using b c d p o
      failed_build_keeps_sql [of plainEnv usedQuery ?s UnknownOperatorError ?q1 "[]"]
    by (simp add: usedQuery_def)
qed

subsection \<open>Counting without a filter\<close>

text \<open>C10. For every argument of \<^verbatim>\<open>count\<close> that is not an object carrying a property
  \<^verbatim>\<open>filter\<close> (\<open>null\<close>, a bare string, an object without \<^verbatim>\<open>filter\<close>, ...),
  \<^verbatim>\<open>count\<close> raises no error: it builds \<^verbatim>\<open>SELECT COUNT(*) FROM table\<close> with no
  \<^verbatim>\<open>WHERE\<close> clause and an empty parameter list. For \<open>null\<close> this rests on the
  framework helper \<^verbatim>\<open>$.isObject\<close> answering \<^verbatim>\<open>false\<close> for it.\<close>

theorem count_without_filter:
  assumes "\<not> carriesFilter arg" and "arg = Value JNull \<longrightarrow> \<not> nullIsObject E"
  shows "count E q arg
         = (Inr (''SELECT COUNT(*) FROM '' @ q_table q),
            q\<lparr>q_sqlValues := [], q_sql := ''SELECT COUNT(*) FROM '' @ q_table q\<rparr>)"
proof -
  have e: "prepareCount E q emptySearch
           = (Inr (''SELECT COUNT(*) FROM '' @ q_table q),
              q\<lparr>q_sqlValues := [], q_sql := ''SELECT COUNT(*) FROM '' @ q_table q\<rparr>)"
    by (simp add: prepareCount_def buildSqlFromFilterArray_def emptySearch_def isArray_def
        items_def Let_def)
  show ?thesis
  proof (cases arg)
    case (SearchObject s)
    with assms(1) e show ?thesis by (simp add: count_def carriesFilter_def)
  next
    case (Value v)
    with assms e show ?thesis
      by (cases v) (simp_all add: count_def carriesFilter_def isObject_def isArray_def)
  qed
qed

theorem count_without_filter_witness:
  "count plainEnv usedQuery (Value JNull)
     = (Inr ''SELECT COUNT(*) FROM t'',
        \<lparr>q_table = ''t'', q_sql = ''SELECT COUNT(*) FROM t'', q_sqlValues = []\<rparr>)
   \<and> count plainEnv usedQuery (Value (JStr ''all''))
     = (Inr ''SELECT COUNT(*) FROM t'',
        \<lparr>q_table = ''t'', q_sql = ''SELECT COUNT(*) FROM t'', q_sqlValues = []\<rparr>)
   \<and> count plainEnv usedQuery (SearchObject (searchFor JUndefined (JStr ''OR'')))
     = (Inr ''SELECT COUNT(*) FROM t'',
        \<lparr>q_table = ''t'', q_sql = ''SELECT COUNT(*) FROM t'', q_sqlValues = []\<rparr>)"
  using count_without_filter [of "Value JNull" plainEnv usedQuery]
    count_without_filter [of "Value (JStr ''all'')" plainEnv usedQuery]
    count_without_filter [of "SearchObject (searchFor JUndefined (JStr ''OR''))" plainEnv usedQuery]
  by (simp add: carriesFilter_def isArray_def plainEnv_def usedQuery_def searchFor_def)

text \<open>With a helper \<^verbatim>\<open>$.isObject\<close> that is \<^verbatim>\<open>typeof\<close> alone, the test reads a
  property of \<open>null\<close>.\<close>

lemma count_null_raises:
  "nullIsObject E \<Longrightarrow> count E q (Value JNull) = (Inl TypeError, q)"
  by (simp add: count_def isObject_def)



subsection \<open>Placeholders and parameters\<close>

lemma placeholders_append [simp]: "placeholders (a @ b) = placeholders a + placeholders b"
  by (simp add: placeholders_def)

lemma placeholders_Nil [simp]: "placeholders [] = 0"
  by (simp add: placeholders_def)


lemma binds_refl [simp]: "binds sql vals sql vals []"
  by (simp add: binds_def)

























text \<open>The code also leaves a placeholder without parameter for an element of an array
  value that \<^verbatim>\<open>_pushValue\<close> does not know, whose answer the array branch does not
  look at.\<close>

lemma unknown_array_element:
  "compile plainEnv usedQuery (JArr [JArr [JStr ''a'', JStr ''IN'', JArr [JNum 1, JNaN]]])
     (JStr ''AND'')
     = Inr (''(a IN (?, ?))'', [JNum 1])"
  by (simp add: example_defs build_defs getColumnPlaceholder_def value_defs string_defs
      catalog_defs Let_def)



end
